theory Spec2Isabelle
  imports Complex_Main
begin

section \<open>Python values, exceptions and built-ins\<close>

text \<open>
  The program is one Python script, \<^verbatim>\<open>streamlit/app.py\<close>. Everything it reads from its
  four web services is decoded JSON, so a Python value is modelled as a JSON value. A dict
  is an association list read with \<open>map_of\<close> (the decoder keeps one binding per key) and
  iterated in list order. Idealisations, stated once: a Python float is a real number (no
  binary rounding, no overflow, no NaN); strings are byte strings, so the whitespace and
  digit tests are the ASCII ones; \<^verbatim>\<open>int()\<close> has no length limit on its argument.
\<close>

datatype json =
    JNull
  | JBool bool
  | JInt int
  | JFloat real
  | JStr string
  | JList "json list"
  | JDict "(string \<times> json) list"

text \<open>The exceptions the script can meet; all of them are subclasses of \<^verbatim>\<open>Exception\<close>.\<close>

datatype py_error =
    AttributeError
  | TypeError
  | ValueError
  | IndexError
  | KeyError
  | ZeroDivisionError
  | RequestError

type_synonym 'a result = "py_error + 'a"

definition py_bind :: "'a result \<Rightarrow> ('a \<Rightarrow> 'b result) \<Rightarrow> 'b result" where
  "py_bind m f = (case m of Inl e \<Rightarrow> Inl e | Inr x \<Rightarrow> f x)"

text \<open>Truth value testing: \<^verbatim>\<open>bool(x)\<close>, \<^verbatim>\<open>if x\<close>, \<^verbatim>\<open>not x\<close>.\<close>

fun py_truthy :: "json \<Rightarrow> bool" where
  "py_truthy JNull = False"
| "py_truthy (JBool b) = b"
| "py_truthy (JInt n) = (n \<noteq> 0)"
| "py_truthy (JFloat r) = (r \<noteq> 0)"
| "py_truthy (JStr s) = (s \<noteq> [])"
| "py_truthy (JList xs) = (xs \<noteq> [])"
| "py_truthy (JDict kvs) = (kvs \<noteq> [])"

text \<open>\<^verbatim>\<open>a or b\<close> for an operand \<open>b\<close> that cannot raise.\<close>

definition py_or :: "json \<Rightarrow> json \<Rightarrow> json" where
  "py_or a b = (if py_truthy a then a else b)"

text \<open>\<^verbatim>\<open>d.get(k, default)\<close>: only a dict has the method.\<close>

fun py_get :: "json \<Rightarrow> string \<Rightarrow> json \<Rightarrow> json result" where
  "py_get (JDict kvs) k dflt = Inr (case map_of kvs k of Some v \<Rightarrow> v | None \<Rightarrow> dflt)"
| "py_get _ k dflt = Inl AttributeError"

text \<open>\<^verbatim>\<open>x[0]\<close>: a JSON dict has string keys only, so the key \<open>0\<close> is never present.\<close>

fun py_index0 :: "json \<Rightarrow> json result" where
  "py_index0 (JList []) = Inl IndexError"
| "py_index0 (JList (x # xs)) = Inr x"
| "py_index0 (JStr []) = Inl IndexError"
| "py_index0 (JStr (c # cs)) = Inr (JStr [c])"
| "py_index0 (JDict kvs) = Inl KeyError"
| "py_index0 _ = Inl TypeError"

text \<open>\<^verbatim>\<open>len(x)\<close> and iteration \<^verbatim>\<open>for v in x\<close>.\<close>

fun py_len :: "json \<Rightarrow> nat result" where
  "py_len (JStr s) = Inr (length s)"
| "py_len (JList xs) = Inr (length xs)"
| "py_len (JDict kvs) = Inr (length kvs)"
| "py_len _ = Inl TypeError"

fun py_iter :: "json \<Rightarrow> json list result" where
  "py_iter (JStr s) = Inr (map (\<lambda>c. JStr [c]) s)"
| "py_iter (JList xs) = Inr xs"
| "py_iter (JDict kvs) = Inr (map (\<lambda>kv. JStr (fst kv)) kvs)"
| "py_iter _ = Inl TypeError"

definition is_space :: "char \<Rightarrow> bool" where
  "is_space c = (let n = (of_char c :: nat) in (9 \<le> n \<and> n \<le> 13) \<or> (28 \<le> n \<and> n \<le> 32))"

definition is_digit :: "char \<Rightarrow> bool" where
  "is_digit c = (let n = (of_char c :: nat) in 48 \<le> n \<and> n \<le> 57)"

definition digit_val :: "char \<Rightarrow> int" where
  "digit_val c = int (of_char c) - 48"

definition py_strip :: "string \<Rightarrow> string" where
  "py_strip s = rev (dropWhile is_space (rev (dropWhile is_space s)))"

text \<open>The method call \<^verbatim>\<open>x.strip()\<close>: only a string has it.\<close>

fun str_strip :: "json \<Rightarrow> string result" where
  "str_strip (JStr s) = Inr (py_strip s)"
| "str_strip _ = Inl AttributeError"

text \<open>
  \<^verbatim>\<open>int(s)\<close> on a string, base 10: surrounding whitespace, one optional sign, then digits
  in which single underscores may separate digits. The whitespace \<^verbatim>\<open>int()\<close> skips is
  narrower than that of \<^verbatim>\<open>str.strip()\<close>: tab to carriage return and the space, not the
  separators 28 to 31.
\<close>

definition is_int_space :: "char \<Rightarrow> bool" where
  "is_int_space c = (let n = (of_char c :: nat) in (9 \<le> n \<and> n \<le> 13) \<or> n = 32)"

definition int_strip :: "string \<Rightarrow> string" where
  "int_strip s = rev (dropWhile is_int_space (rev (dropWhile is_int_space s)))"

fun int_digits :: "string \<Rightarrow> int \<Rightarrow> int option" where
  "int_digits [] acc = Some acc"
| "int_digits [c] acc = (if is_digit c then Some (10 * acc + digit_val c) else None)"
| "int_digits (c # d # ds) acc =
     (if is_digit c then int_digits (d # ds) (10 * acc + digit_val c)
      else if c = CHR ''_'' \<and> is_digit d then int_digits ds (10 * acc + digit_val d)
      else None)"

definition int_unsigned :: "string \<Rightarrow> int option" where
  "int_unsigned s =
     (case s of
        [] \<Rightarrow> None
      | c # cs \<Rightarrow> if is_digit c then int_digits cs (digit_val c) else None)"

definition int_of_str :: "string \<Rightarrow> int result" where
  "int_of_str s =
     (let t = int_strip s;
          neg = (case t of c # cs \<Rightarrow> c = CHR ''-'' | [] \<Rightarrow> False);
          body = (case t of c # cs \<Rightarrow> if c = CHR ''-'' \<or> c = CHR ''+'' then cs else t | [] \<Rightarrow> t)
      in case int_unsigned body of
           None \<Rightarrow> Inl ValueError
         | Some n \<Rightarrow> Inr (if neg then - n else n))"

text \<open>\<^verbatim>\<open>int(x)\<close>: a bool is an int, a float is truncated towards zero.\<close>

fun py_int :: "json \<Rightarrow> int result" where
  "py_int (JBool b) = Inr (if b then 1 else 0)"
| "py_int (JInt n) = Inr n"
| "py_int (JFloat r) = Inr (if 0 \<le> r then \<lfloor>r\<rfloor> else \<lceil>r\<rceil>)"
| "py_int (JStr s) = int_of_str s"
| "py_int _ = Inl TypeError"

text \<open>
  \<^verbatim>\<open>round(x, n)\<close> on a float: to the nearest multiple of \<open>10 ^ -n\<close>, a tie going to the even
  neighbour.
\<close>

definition round_half_even :: "real \<Rightarrow> int" where
  "round_half_even y =
     (let f = \<lfloor>y\<rfloor>; d = y - of_int f
      in if d < 1 / 2 then f
         else if 1 / 2 < d then f + 1
         else if even f then f else f + 1)"

definition py_round :: "real \<Rightarrow> nat \<Rightarrow> real" where
  "py_round x n = of_int (round_half_even (x * 10 ^ n)) / 10 ^ n"

section \<open>Scoring engine\<close>

text \<open>
  \<^verbatim>\<open>compute_cpy(citations, year)\<close>. \<open>current_year\<close> is the module constant
  \<^verbatim>\<open>CURRENT_YEAR\<close>, read from the environment when the script starts. \<open>citations\<close> is
  \<open>None\<close> or an integer (the script passes \<^verbatim>\<open>citations or 0\<close>); \<open>year\<close> is whatever the
  services returned. Any exception of the \<^verbatim>\<open>try\<close> block gives \<open>0.0\<close>.
\<close>

definition cpy_years :: "int \<Rightarrow> int \<Rightarrow> int" where
  "cpy_years current_year y = max 1 (current_year - y + 1)"

definition py_div :: "real \<Rightarrow> real \<Rightarrow> real result" where
  "py_div a b = (if b = 0 then Inl ZeroDivisionError else Inr (a / b))"

definition compute_cpy :: "int \<Rightarrow> int option \<Rightarrow> json \<Rightarrow> real" where
  "compute_cpy current_year citations year =
     (if \<not> py_truthy year \<or> citations = None then 0
      else case citations of
             None \<Rightarrow> 0
           | Some c \<Rightarrow>
               (case py_bind (py_int year) (\<lambda>y.
                       py_div (real_of_int c) (real_of_int (cpy_years current_year y)))
                of Inr v \<Rightarrow> v
                 | Inl e \<Rightarrow> 0))"

text \<open>\<^verbatim>\<open>math.log1p(x)\<close>: a domain error for \<open>x \<le> -1\<close>.\<close>

definition log1p :: "real \<Rightarrow> real result" where
  "log1p x = (if x \<le> - 1 then Inl ValueError else Inr (ln (1 + x)))"

text \<open>The dict literal \<^verbatim>\<open>weights\<close> of \<^verbatim>\<open>compute_rim_with_logC\<close>, and \<^verbatim>\<open>weights[k]\<close>.\<close>

definition weights :: "(string \<times> real) list" where
  "weights =
     [(''C'', 25 / 100), (''J'', 20 / 100), (''D'', 15 / 100), (''R'', 20 / 100),
      (''F'', 10 / 100), (''O'', 5 / 100), (''P'', 5 / 100)]"

definition weight :: "string \<Rightarrow> real" where
  "weight k = (case map_of weights k of Some w \<Rightarrow> w | None \<Rightarrow> 0)"

text \<open>Lines 153 to 156: the log-normalised citation component \<open>C\<close>.\<close>

definition citation_component :: "real \<Rightarrow> real \<Rightarrow> real result" where
  "citation_component cpy max_cpy =
     (if max_cpy \<noteq> 0 \<and> 0 < max_cpy
      then py_bind (log1p cpy) (\<lambda>a. py_bind (log1p max_cpy) (\<lambda>b. py_div a b))
      else Inr 0)"

definition weighted_sum :: "real \<Rightarrow> real \<Rightarrow> real \<Rightarrow> real \<Rightarrow> real \<Rightarrow> real \<Rightarrow> real \<Rightarrow> real" where
  "weighted_sum C J D R F O' P =
     weight ''C'' * C + weight ''J'' * J + weight ''D'' * D + weight ''R'' * R
       + weight ''F'' * F + weight ''O'' * O' + weight ''P'' * P"

definition compute_rim_with_logC ::
  "real \<Rightarrow> real \<Rightarrow> real \<Rightarrow> real \<Rightarrow> real \<Rightarrow> real \<Rightarrow> real \<Rightarrow> real \<Rightarrow> real result" where
  "compute_rim_with_logC cpy max_cpy J D R F O' P =
     py_bind (citation_component cpy max_cpy)
       (\<lambda>C. Inr (py_round (weighted_sum C J D R F O' P * 100) 2))"

text \<open>
  One record of the batch, as line 321 builds it (the dict keys \<^verbatim>\<open>Scholar Name\<close> and
  \<^verbatim>\<open>Journal/Conference\<close> are not Isabelle names).
\<close>

record row =
  Scholar_Name :: string
  Title :: json
  Journal :: json
  Volume :: json
  Issue :: json
  Year :: "int option"
  Num_Authors :: nat
  Affiliations :: string
  DOI :: json
  Citations :: int
  CPY :: real
  is_OA :: bool
  Funder_present :: bool
  Author_affil_completeness :: real
  Is_Retracted :: bool

text \<open>Line 343: \<^verbatim>\<open>df['CPY'].max()\<close>, and \<open>0.0\<close> for a frame with no value.\<close>

fun max_cpy :: "row list \<Rightarrow> real" where
  "max_cpy [] = 0"
| "max_cpy [r] = CPY r"
| "max_cpy (r # r' # rs) = max (CPY r) (max_cpy (r' # rs))"

text \<open>Lines 346 to 355: the lambda applied to each row, and \<^verbatim>\<open>df.apply\<close> over the rows.\<close>

definition rim_of_row :: "real \<Rightarrow> row \<Rightarrow> real result" where
  "rim_of_row mx r =
     compute_rim_with_logC (CPY r) mx (1 / 2)
       (if is_OA r then 1 else 0)
       (if Is_Retracted r then 0 else 1)
       (if Funder_present r then 1 else 0)
       (Author_affil_completeness r)
       0"

fun rim_column :: "real \<Rightarrow> row list \<Rightarrow> real list result" where
  "rim_column mx [] = Inr []"
| "rim_column mx (r # rs) =
     py_bind (rim_of_row mx r) (\<lambda>x. py_bind (rim_column mx rs) (\<lambda>xs. Inr (x # xs)))"

text \<open>Lines 358 and 359: \<^verbatim>\<open>1 - RIM / 100\<close>, then \<^verbatim>\<open>clip(0, 1)\<close>.\<close>

definition risk_factor :: "real \<Rightarrow> real" where
  "risk_factor rim = min 1 (max 0 (1 - rim / 100))"

section \<open>Web services\<close>

text \<open>
  What one \<^verbatim>\<open>requests.get\<close> gives: an exception (no connection, timeout), or a response
  with its status code and its body, \<open>None\<close> when the body is not JSON (then \<^verbatim>\<open>r.json()\<close>
  raises). The URL is not modelled: each fetch function takes the response its request gets.
\<close>

datatype http_result = ConnError | Response int "json option"

definition requests_get :: "http_result \<Rightarrow> (int \<times> json option) result" where
  "requests_get resp =
     (case resp of ConnError \<Rightarrow> Inl RequestError | Response status body \<Rightarrow> Inr (status, body))"

definition response_json :: "json option \<Rightarrow> json result" where
  "response_json body = (case body of None \<Rightarrow> Inl ValueError | Some j \<Rightarrow> Inr j)"

definition raise_for_status :: "int \<Rightarrow> unit result" where
  "raise_for_status status = (if 400 \<le> status \<and> status < 600 then Inl RequestError else Inr ())"

text \<open>\<^verbatim>\<open>quote_plus(x)\<close> raises on anything but a string; its value only shapes the URL.\<close>

definition quote_plus :: "json \<Rightarrow> unit result" where
  "quote_plus v = (case v of JStr s \<Rightarrow> Inr () | _ \<Rightarrow> Inl TypeError)"

text \<open>
  In each fetch function the \<^verbatim>\<open>try\<close> block is the scrutinee of the outer \<open>case\<close>: \<open>Inr (Some v)\<close>
  is a \<^verbatim>\<open>return v\<close> inside it, \<open>Inr None\<close> is falling out of it, and \<open>Inl e\<close> is an exception,
  which \<^verbatim>\<open>except Exception\<close> catches.
\<close>

definition fetch_crossref_by_doi :: "json \<Rightarrow> http_result \<Rightarrow> json result" where
  "fetch_crossref_by_doi doi resp =
     (case py_bind (quote_plus doi) (\<lambda>u.
           py_bind (requests_get resp) (\<lambda>(status, body).
             if status = 200
             then py_bind (response_json body) (\<lambda>j.
                  py_bind (py_get j ''message'' (JDict [])) (\<lambda>m. Inr (Some m)))
             else Inr None))
      of Inr (Some m) \<Rightarrow> Inr m
       | Inr None \<Rightarrow> Inr (JDict [])
       | Inl e \<Rightarrow> Inr (JDict []))"

definition fetch_crossref_by_title :: "string \<Rightarrow> http_result \<Rightarrow> json result" where
  "fetch_crossref_by_title title resp =
     (case py_bind (requests_get resp) (\<lambda>(status, body).
           py_bind (raise_for_status status) (\<lambda>u.
           py_bind (response_json body) (\<lambda>j.
           py_bind (py_get j ''message'' (JDict [])) (\<lambda>m.
           py_bind (py_get m ''items'' (JList [])) (\<lambda>items.
             if py_truthy items then py_index0 items else Inr (JDict []))))))
      of Inr v \<Rightarrow> Inr v
       | Inl e \<Rightarrow> Inr (JDict []))"

definition fetch_semanticscholar_by_doi ::
  "json \<Rightarrow> http_result \<Rightarrow> (int \<times> json \<times> bool) result" where
  "fetch_semanticscholar_by_doi doi resp =
     (case py_bind (quote_plus doi) (\<lambda>u.
           py_bind (requests_get resp) (\<lambda>(status, body).
             if status = 200
             then py_bind (response_json body) (\<lambda>j.
                  py_bind (py_get j ''citationCount'' (JInt 0)) (\<lambda>c.
                  py_bind (py_int (py_or c (JInt 0))) (\<lambda>n.
                  py_bind (py_get j ''year'' JNull) (\<lambda>y.
                  py_bind (py_get j ''isRetracted'' (JBool False)) (\<lambda>r.
                    Inr (Some (n, y, py_truthy r)))))))
             else Inr None))
      of Inr (Some t) \<Rightarrow> Inr t
       | Inr None \<Rightarrow> Inr (0, JNull, False)
       | Inl e \<Rightarrow> Inr (0, JNull, False))"

definition fetch_semanticscholar_by_title ::
  "string \<Rightarrow> http_result \<Rightarrow> (int \<times> json \<times> bool \<times> json) result" where
  "fetch_semanticscholar_by_title title resp =
     (case py_bind (requests_get resp) (\<lambda>(status, body).
             if status = 200
             then py_bind (response_json body) (\<lambda>j.
                  py_bind (py_get j ''data'' (JList [])) (\<lambda>data.
                    if py_truthy data
                    then py_bind (py_index0 data) (\<lambda>item.
                         py_bind (py_get item ''citationCount'' (JInt 0)) (\<lambda>c.
                         py_bind (py_int (py_or c (JInt 0))) (\<lambda>n.
                         py_bind (py_get item ''year'' JNull) (\<lambda>y.
                         py_bind (py_get item ''isRetracted'' (JBool False)) (\<lambda>r.
                         py_bind (py_get item ''externalIds'' (JDict [])) (\<lambda>ext.
                           Inr (Some (n, y, py_truthy r, ext))))))))
                    else Inr None))
             else Inr None)
      of Inr (Some t) \<Rightarrow> Inr t
       | Inr None \<Rightarrow> Inr (0, JNull, False, JDict [])
       | Inl e \<Rightarrow> Inr (0, JNull, False, JDict []))"

definition fetch_unpaywall :: "json \<Rightarrow> string \<Rightarrow> http_result \<Rightarrow> bool result" where
  "fetch_unpaywall doi email resp =
     (if \<not> py_truthy doi then Inr False
      else case py_bind (requests_get resp) (\<lambda>(status, body).
                  if status = 200
                  then py_bind (response_json body) (\<lambda>j.
                       py_bind (py_get j ''is_oa'' (JBool False)) (\<lambda>v. Inr (Some (py_truthy v))))
                  else Inr None)
           of Inr (Some b) \<Rightarrow> Inr b
            | Inr None \<Rightarrow> Inr False
            | Inl e \<Rightarrow> Inr False)"

section \<open>Identifier extractor\<close>

text \<open>
  \<^verbatim>\<open>DOI_RE.search(s)\<close> for the pattern \<^verbatim>\<open>10\.\d{4,9}/\S+\<close>. At one start position the
  digit run must be followed by the slash, so it is the whole run of digits and has 4 to 9 of
  them; \<^verbatim>\<open>\S+\<close> takes the longest run of non-space characters. \<open>doi_search\<close> returns
  \<^verbatim>\<open>m.group(0)\<close> of the leftmost match.
\<close>

definition doi_match_at :: "string \<Rightarrow> string option" where
  "doi_match_at s =
     (case s of
        c1 # c2 # c3 # rest \<Rightarrow>
          if c1 = CHR ''1'' \<and> c2 = CHR ''0'' \<and> c3 = CHR ''.''
          then (let ds = takeWhile is_digit rest; after = dropWhile is_digit rest
                in if 4 \<le> length ds \<and> length ds \<le> 9
                   then (case after of
                           [] \<Rightarrow> None
                         | sl # suf \<Rightarrow>
                             if sl = CHR ''/''
                             then (let suffix = takeWhile (\<lambda>c. \<not> is_space c) suf
                                   in if suffix \<noteq> [] then Some (''10.'' @ ds @ ''/'' @ suffix)
                                      else None)
                             else None)
                   else None)
          else None
      | _ \<Rightarrow> None)"

fun doi_search :: "string \<Rightarrow> string option" where
  "doi_search [] = None"
| "doi_search (c # cs) =
     (case doi_match_at (c # cs) of Some m \<Rightarrow> Some m | None \<Rightarrow> doi_search cs)"

text \<open>The loop \<^verbatim>\<open>for v in ...: if isinstance(v, str): m = DOI_RE.search(v); if m: return\<close>.\<close>

fun first_doi :: "json list \<Rightarrow> string option" where
  "first_doi [] = None"
| "first_doi (v # vs) =
     (case (case v of JStr s \<Rightarrow> doi_search s | _ \<Rightarrow> None) of
        Some m \<Rightarrow> Some m
      | None \<Rightarrow> first_doi vs)"

text \<open>The list branch: an element is a string, or a dict whose values are scanned.\<close>

fun first_doi_in_list :: "json list \<Rightarrow> string option" where
  "first_doi_in_list [] = None"
| "first_doi_in_list (v # vs) =
     (case (case v of
              JStr s \<Rightarrow> doi_search s
            | JDict kvs \<Rightarrow> first_doi (map snd kvs)
            | _ \<Rightarrow> None) of
        Some m \<Rightarrow> Some m
      | None \<Rightarrow> first_doi_in_list vs)"

definition scan_field :: "json \<Rightarrow> string option" where
  "scan_field val =
     (case val of
        JDict kvs \<Rightarrow> first_doi (map snd kvs)
      | JList vs \<Rightarrow> first_doi_in_list vs
      | _ \<Rightarrow> None)"

fun scan_fields :: "(string \<times> json) list \<Rightarrow> string list \<Rightarrow> string option" where
  "scan_fields item [] = None"
| "scan_fields item (k # ks) =
     (case scan_field (case map_of item k of Some v \<Rightarrow> v | None \<Rightarrow> JNull) of
        Some m \<Rightarrow> Some m
      | None \<Rightarrow> scan_fields item ks)"

text \<open>The result is \<open>JNull\<close> for \<^verbatim>\<open>None\<close>.\<close>

definition extract_doi_from_serp_item :: "json \<Rightarrow> json result" where
  "extract_doi_from_serp_item item =
     py_bind (py_get item ''external_ids'' JNull) (\<lambda>e.
     let ext = py_or e (JDict []) in
     py_bind (py_get ext ''DOI'' JNull) (\<lambda>d1.
     py_bind (py_get ext ''doi'' JNull) (\<lambda>d2.
     let doi = py_or d1 d2 in
     if py_truthy doi then Inr doi
     else case item of
            JDict kvs \<Rightarrow>
              Inr (case scan_fields kvs
                          [''inline_links'', ''links'', ''source'', ''publication_info'',
                           ''publication''] of
                     Some m \<Rightarrow> JStr m
                   | None \<Rightarrow> JNull)
          | _ \<Rightarrow> Inl AttributeError)))"

section \<open>Metadata resolver\<close>

text \<open>\<^verbatim>\<open>str(x)\<close>: a string is itself; the text of any other value is the parameter \<open>repr\<close>.\<close>

definition py_str :: "(json \<Rightarrow> string) \<Rightarrow> json \<Rightarrow> string" where
  "py_str repr v = (case v of JStr s \<Rightarrow> s | _ \<Rightarrow> repr v)"

text \<open>\<^verbatim>\<open>list(dict.fromkeys(xs))\<close>: the first occurrence of each element, in order.\<close>

definition dedup :: "string list \<Rightarrow> string list" where
  "dedup xs = fold (\<lambda>x acc. if x \<in> set acc then acc else acc @ [x]) xs []"

fun py_join :: "string \<Rightarrow> string list \<Rightarrow> string" where
  "py_join sep [] = []"
| "py_join sep [x] = x"
| "py_join sep (x # y # ys) = x @ sep @ py_join sep (y # ys)"

text \<open>The inner loop \<^verbatim>\<open>for aff in affs\<close>: the names it appends.\<close>

fun affiliation_names :: "(json \<Rightarrow> string) \<Rightarrow> json list \<Rightarrow> string list result" where
  "affiliation_names repr [] = Inr []"
| "affiliation_names repr (aff # rest) =
     py_bind (case aff of
                JDict kvs \<Rightarrow> py_bind (py_get aff ''name'' (JStr [])) str_strip
              | _ \<Rightarrow> Inr (py_strip (py_str repr aff))) (\<lambda>name.
     py_bind (affiliation_names repr rest) (\<lambda>names.
       Inr (if name \<noteq> [] then name # names else names)))"

text \<open>The outer loop \<^verbatim>\<open>for a in authors\<close>: \<open>authors_with_aff\<close> and \<open>aff_names\<close>.\<close>

fun authors_loop :: "(json \<Rightarrow> string) \<Rightarrow> json list \<Rightarrow> (nat \<times> string list) result" where
  "authors_loop repr [] = Inr (0, [])"
| "authors_loop repr (a # rest) =
     py_bind (py_get a ''affiliation'' (JList [])) (\<lambda>v.
     let affs = py_or v (JList []) in
     py_bind (if py_truthy affs
              then py_bind (py_iter affs) (\<lambda>l.
                   py_bind (affiliation_names repr l) (\<lambda>ns. Inr (1, ns)))
              else Inr (0, [])) (\<lambda>(k, ns).
     py_bind (authors_loop repr rest) (\<lambda>(k', ns').
       Inr (k + k', ns @ ns'))))"

definition parse_crossref_authors_and_affiliations ::
  "(json \<Rightarrow> string) \<Rightarrow> json \<Rightarrow> (nat \<times> nat \<times> string) result" where
  "parse_crossref_authors_and_affiliations repr cr_item =
     py_bind (py_get cr_item ''author'' (JList [])) (\<lambda>v.
     let authors = py_or v (JList []) in
     py_bind (py_len authors) (\<lambda>num_authors.
     py_bind (py_iter authors) (\<lambda>l.
     py_bind (authors_loop repr l) (\<lambda>(authors_with_aff, aff_names).
       Inr (num_authors, authors_with_aff,
            py_join ''; '' (dedup (filter (\<lambda>a. a \<noteq> []) aff_names)))))))"

section \<open>Record merger: the body of the loop over the publication stubs\<close>

text \<open>
  The values fixed before the loop: the module constants \<^verbatim>\<open>CURRENT_YEAR\<close> and
  \<^verbatim>\<open>UNPAYWALL_EMAIL\<close>, the profile's \<^verbatim>\<open>scholar_name\<close>, and the text Python prints for a
  value that is not a string.
\<close>

record config =
  CURRENT_YEAR :: int
  UNPAYWALL_EMAIL :: string
  scholar_name :: string
  repr_of :: "json \<Rightarrow> string"

text \<open>The response each of the five requests of one iteration gets, if it is sent.\<close>

record responses =
  crossref_doi_response :: http_result
  crossref_title_response :: http_result
  citations_doi_response :: http_result
  citations_title_response :: http_result
  unpaywall_response :: http_result

text \<open>Line 247.\<close>

definition stub_title :: "json \<Rightarrow> string result" where
  "stub_title art = py_bind (py_get art ''title'' (JStr [])) str_strip"

text \<open>
  Lines 250 to 258. \<^verbatim>\<open>isinstance(cb, int)\<close> holds for a bool too; the bool is kept here
  as the integer it equals, which is what every later use of \<open>cited_by_val\<close> reads.
\<close>

definition stub_cited_by :: "json \<Rightarrow> int" where
  "stub_cited_by art =
     (case py_bind (py_get art ''cited_by'' JNull) (\<lambda>cb.
             case cb of
               JDict kvs \<Rightarrow> py_bind (py_get cb ''value'' (JInt 0)) (\<lambda>v. py_int (py_or v (JInt 0)))
             | JInt n \<Rightarrow> Inr n
             | JBool b \<Rightarrow> Inr (if b then 1 else 0)
             | _ \<Rightarrow> Inr 0)
      of Inr n \<Rightarrow> n
       | Inl e \<Rightarrow> 0)"

text \<open>Lines 264 to 268.\<close>

definition crossref_metadata :: "json \<Rightarrow> string \<Rightarrow> responses \<Rightarrow> json result" where
  "crossref_metadata doi title_serp rs =
     py_bind (if py_truthy doi then fetch_crossref_by_doi doi (crossref_doi_response rs)
              else Inr (JDict [])) (\<lambda>cr.
     if \<not> py_truthy cr then fetch_crossref_by_title title_serp (crossref_title_response rs)
     else Inr cr)"

text \<open>Line 271.\<close>

definition merged_title :: "json \<Rightarrow> string \<Rightarrow> json result" where
  "merged_title cr title_serp =
     py_bind (py_get cr ''title'' JNull) (\<lambda>t.
     if py_truthy t then py_bind (py_get cr ''title'' (JList [JStr []])) py_index0
     else Inr (JStr title_serp))"

text \<open>Line 272; the conditional expression binds weaker than \<^verbatim>\<open>or\<close>.\<close>

definition merged_journal :: "json \<Rightarrow> json \<Rightarrow> json result" where
  "merged_journal cr art =
     py_bind (py_get cr ''container-title'' JNull) (\<lambda>t.
     if py_truthy t then py_bind (py_get cr ''container-title'' (JList [JStr []])) py_index0
     else py_bind (py_get art ''publication'' (JDict [])) (\<lambda>p.
          py_bind (py_get p ''name'' JNull) (\<lambda>n.
          if py_truthy n then Inr n
          else py_bind (py_get art ''source'' JNull) (\<lambda>src. Inr (py_or src (JStr []))))))"

text \<open>Lines 273 and 274: \<^verbatim>\<open>cr.get(k, "") or ""\<close>.\<close>

definition get_or_empty :: "json \<Rightarrow> string \<Rightarrow> json result" where
  "get_or_empty cr k = py_bind (py_get cr k (JStr [])) (\<lambda>v. Inr (py_or v (JStr [])))"

text \<open>
  Lines 277 to 283. \<open>date_part cr k\<close> is \<^verbatim>\<open>cr.get(k, {}).get('date-parts', [[None]])[0][0]\<close>;
  \<open>registry_year\<close> is the \<^verbatim>\<open>try\<close> statement, \<open>resolve_year\<close> adds the fallback to the stub.
\<close>

definition date_part :: "json \<Rightarrow> string \<Rightarrow> json result" where
  "date_part cr k =
     py_bind (py_get cr k (JDict [])) (\<lambda>d.
     py_bind (py_get d ''date-parts'' (JList [JList [JNull]])) (\<lambda>p.
     py_bind (py_index0 p) py_index0))"

definition registry_year :: "json \<Rightarrow> json" where
  "registry_year cr =
     (case py_bind (date_part cr ''issued'') (\<lambda>y.
             if py_truthy y then Inr y else date_part cr ''published-print'')
      of Inr y \<Rightarrow> y
       | Inl e \<Rightarrow> JNull)"

definition resolve_year :: "json \<Rightarrow> json \<Rightarrow> json result" where
  "resolve_year cr art =
     (let year = registry_year cr
      in if \<not> py_truthy year
         then py_bind (py_get art ''year'' JNull) (\<lambda>y.
              if py_truthy y then Inr y
              else py_bind (py_get art ''publication'' (JDict [])) (\<lambda>p. py_get p ''year'' JNull))
         else Inr year)"

text \<open>Line 327: \<^verbatim>\<open>int(year) if year else None\<close>.\<close>

definition row_year :: "json \<Rightarrow> int option result" where
  "row_year year =
     (if py_truthy year then py_bind (py_int year) (\<lambda>y. Inr (Some y)) else Inr None)"

text \<open>Lines 286 to 290.\<close>

definition author_counts :: "(json \<Rightarrow> string) \<Rightarrow> json \<Rightarrow> json \<Rightarrow> (nat \<times> nat \<times> string) result" where
  "author_counts repr cr art =
     py_bind (if py_truthy cr then parse_crossref_authors_and_affiliations repr cr
              else Inr (0, 0, [])) (\<lambda>(num_authors, authors_with_aff, affs_str).
     if num_authors = 0
     then py_bind (py_get art ''authors'' JNull) (\<lambda>a1.
          py_bind (py_get art ''authors_parsed'' JNull) (\<lambda>a2.
          let serp_authors = py_or (py_or a1 a2) (JList []) in
          Inr (case serp_authors of JList xs \<Rightarrow> length xs | _ \<Rightarrow> num_authors,
               authors_with_aff, affs_str)))
     else Inr (num_authors, authors_with_aff, affs_str))"

text \<open>Lines 293 and 294.\<close>

definition funder_flag :: "json \<Rightarrow> bool result" where
  "funder_flag cr =
     py_bind (if py_truthy cr then py_get cr ''funder'' (JList []) else Inr (JList []))
       (\<lambda>funder_info. Inr (py_truthy funder_info))"

text \<open>Line 297.\<close>

definition initial_doi_final :: "json \<Rightarrow> json \<Rightarrow> string result" where
  "initial_doi_final cr doi =
     py_bind (py_get cr ''DOI'' JNull) (\<lambda>d. str_strip (py_or (py_or d doi) (JStr [])))"

section \<open>Citation resolver\<close>

text \<open>
  Lines 300 to 312. The outcome holds the three variables the block leaves behind, and the
  lookups it made, in order.
\<close>

datatype lookup = ByDoi | ByTitle

record citation_outcome =
  out_citations :: int
  out_doi :: json
  out_retracted :: bool
  out_lookups :: "lookup list"

definition resolve_citations ::
  "string \<Rightarrow> string \<Rightarrow> int \<Rightarrow> http_result \<Rightarrow> http_result \<Rightarrow> citation_outcome result" where
  "resolve_citations doi_final title_serp cited_by_val r_doi r_title =
     py_bind (if doi_final \<noteq> []
              then py_bind (fetch_semanticscholar_by_doi (JStr doi_final) r_doi)
                     (\<lambda>(c, sem_year, r). Inr (c, r, [ByDoi]))
              else Inr (0, False, [])) (\<lambda>(citations, is_retracted, lookups).
     py_bind (if doi_final = [] \<or> (citations = 0 \<and> \<not> is_retracted)
              then py_bind (fetch_semanticscholar_by_title title_serp r_title)
                     (\<lambda>(sc_cit, sc_year, sc_retracted, sc_ext).
                       if sc_cit \<noteq> 0
                       then py_bind (if doi_final = []
                                     then py_bind (py_get sc_ext ''DOI'' JNull) (\<lambda>d1.
                                          py_bind (py_get sc_ext ''doi'' JNull) (\<lambda>d2.
                                            Inr (py_or (py_or d1 d2) (JStr doi_final))))
                                     else Inr (JStr doi_final)) (\<lambda>doi'.
                            Inr (sc_cit, doi', is_retracted \<or> sc_retracted, lookups @ [ByTitle]))
                       else Inr (citations, JStr doi_final, is_retracted, lookups @ [ByTitle]))
              else Inr (citations, JStr doi_final, is_retracted, lookups))
       (\<lambda>(citations', doi', is_retracted', lookups').
     Inr \<lparr>out_citations = (if citations' = 0 then cited_by_val else citations'),
          out_doi = doi', out_retracted = is_retracted', out_lookups = lookups'\<rparr>))"

section \<open>One record, and the batch\<close>

text \<open>Lines 247 to 337: one iteration of the loop, from the stub to its row.\<close>

definition process_article :: "config \<Rightarrow> json \<Rightarrow> responses \<Rightarrow> row result" where
  "process_article cfg art rs =
     py_bind (stub_title art) (\<lambda>title_serp.
     let cited_by_val = stub_cited_by art in
     py_bind (extract_doi_from_serp_item art) (\<lambda>doi.
     py_bind (crossref_metadata doi title_serp rs) (\<lambda>cr.
     py_bind (merged_title cr title_serp) (\<lambda>title_cr.
     py_bind (merged_journal cr art) (\<lambda>journal.
     py_bind (get_or_empty cr ''volume'') (\<lambda>volume.
     py_bind (get_or_empty cr ''issue'') (\<lambda>issue.
     py_bind (resolve_year cr art) (\<lambda>year.
     py_bind (author_counts (repr_of cfg) cr art) (\<lambda>(num_authors, authors_with_aff, affs_str).
     py_bind (funder_flag cr) (\<lambda>funder.
     py_bind (initial_doi_final cr doi) (\<lambda>doi0.
     py_bind (resolve_citations doi0 title_serp cited_by_val
                (citations_doi_response rs) (citations_title_response rs)) (\<lambda>out.
     py_bind (if py_truthy (out_doi out)
              then fetch_unpaywall (out_doi out) (UNPAYWALL_EMAIL cfg) (unpaywall_response rs)
              else Inr False) (\<lambda>is_oa.
     let O_prop = (if num_authors \<noteq> 0 then real authors_with_aff / real num_authors else 0) in
     py_bind (row_year year) (\<lambda>yr.
     Inr \<lparr>Scholar_Name = scholar_name cfg,
          Title = title_cr,
          Journal = journal,
          Volume = volume,
          Issue = issue,
          Year = yr,
          Num_Authors = num_authors,
          Affiliations = (if affs_str \<noteq> [] then affs_str else ''N/A''),
          DOI = py_or (out_doi out) (JStr []),
          Citations = out_citations out,
          CPY = py_round (compute_cpy (CURRENT_YEAR cfg) (Some (out_citations out))
                            (py_or year JNull)) 3,
          is_OA = is_oa,
          Funder_present = funder,
          Author_affil_completeness = py_round O_prop 3,
          Is_Retracted = out_retracted out\<rparr>))))))))))))))"

text \<open>Lines 243 to 339: the loop. An exception in one iteration ends the run.\<close>

fun process_all :: "config \<Rightarrow> (json \<times> responses) list \<Rightarrow> row list result" where
  "process_all cfg [] = Inr []"
| "process_all cfg (ar # rest) =
     py_bind (process_article cfg (fst ar) (snd ar)) (\<lambda>r.
     py_bind (process_all cfg rest) (\<lambda>rows. Inr (r # rows)))"

text \<open>Lines 342 to 359: the frame with its two derived columns.\<close>

record scored =
  base :: row
  RIM :: real
  Risk_Factor :: real

definition score_rows :: "row list \<Rightarrow> scored list result" where
  "score_rows rows =
     py_bind (rim_column (max_cpy rows) rows) (\<lambda>rims.
       Inr (map2 (\<lambda>r x. \<lparr>base = r, RIM = x, Risk_Factor = risk_factor x\<rparr>) rows rims))"

definition analyze :: "config \<Rightarrow> (json \<times> responses) list \<Rightarrow> scored list result" where
  "analyze cfg stubs = py_bind (process_all cfg stubs) score_rows"

section \<open>Example inputs\<close>

text \<open>
  Two publication stubs with the answers of the services. For the first no service answers;
  the second carries a DOI in its text, and every service that is asked answers in full.
\<close>

definition example_config :: config where
  "example_config = \<lparr>CURRENT_YEAR = 2025, UNPAYWALL_EMAIL = ''you@example.com'',
     scholar_name = ''A. Author'', repr_of = (\<lambda>v. [])\<rparr>"

definition scenario_a_stub :: json where
  "scenario_a_stub =
     JDict [(''title'', JStr ''A paper''), (''cited_by'', JDict [(''value'', JInt 12)])]"

definition no_answers :: responses where
  "no_answers = \<lparr>crossref_doi_response = ConnError, crossref_title_response = ConnError,
     citations_doi_response = ConnError, citations_title_response = ConnError,
     unpaywall_response = ConnError\<rparr>"

text \<open>
  The first stub again, where the citation service's title search answers with one paper that
  is retracted and has no citations.
\<close>

definition retracted_uncited_hit :: http_result where
  "retracted_uncited_hit =
     Response 200 (Some (JDict [(''data'', JList [JDict [(''citationCount'', JInt 0),
        (''isRetracted'', JBool True)]])]))"

definition scenario_r_answers :: responses where
  "scenario_r_answers = \<lparr>crossref_doi_response = ConnError, crossref_title_response = ConnError,
     citations_doi_response = ConnError, citations_title_response = retracted_uncited_hit,
     unpaywall_response = ConnError\<rparr>"

definition scenario_b_stub :: json where
  "scenario_b_stub =
     JDict [(''title'', JStr ''A paper''),
            (''publication_info'', JDict [(''summary'', JStr ''doi 10.1000/xyz'')]),
            (''cited_by'', JDict [(''value'', JInt 3)])]"

definition scenario_b_registry :: json where
  "scenario_b_registry =
     JDict [(''DOI'', JStr ''10.1000/xyz''),
            (''title'', JList [JStr ''A Paper'']),
            (''author'', JList [JDict [(''affiliation'', JList [JDict [(''name'', JStr ''U'')]])]]),
            (''funder'', JList [JDict [(''name'', JStr ''F'')]]),
            (''issued'', JDict [(''date-parts'', JList [JList [JInt 2025, JInt 3]])])]"

definition scenario_b_answers :: responses where
  "scenario_b_answers =
     \<lparr>crossref_doi_response = Response 200 (Some (JDict [(''message'', scenario_b_registry)])),
      crossref_title_response = ConnError,
      citations_doi_response =
        Response 200 (Some (JDict [(''citationCount'', JInt 7), (''year'', JInt 2025),
                                   (''isRetracted'', JBool False)])),
      citations_title_response = ConnError,
      unpaywall_response = Response 200 (Some (JDict [(''is_oa'', JBool True)]))\<rparr>"

definition scenario_b_row :: row where
  "scenario_b_row =
     \<lparr>Scholar_Name = ''A. Author'', Title = JStr ''A Paper'', Journal = JStr [],
      Volume = JStr [], Issue = JStr [], Year = Some 2025, Num_Authors = 1,
      Affiliations = ''U'', DOI = JStr ''10.1000/xyz'', Citations = 7, CPY = 7,
      is_OA = True, Funder_present = True, Author_affil_completeness = 1,
      Is_Retracted = False\<rparr>"

section \<open>Properties\<close>

subsection \<open>Exceptions and rounding\<close>

lemma py_bind_Inr [simp]: "py_bind (Inr x) f = f x" by (simp add: py_bind_def)
lemma py_bind_Inl [simp]: "py_bind (Inl e) f = Inl e" by (simp add: py_bind_def)
lemma py_bind_eq_Inr: "py_bind m f = Inr y \<longleftrightarrow> (\<exists>x. m = Inr x \<and> f x = Inr y)"
  by (cases m) simp_all

lemma round_half_even_ge: "of_int k \<le> y \<Longrightarrow> k \<le> round_half_even y"
proof -
  assume "of_int k \<le> y"
  then have "k \<le> \<lfloor>y\<rfloor>" by (simp add: le_floor_iff)
  then show ?thesis by (simp add: round_half_even_def Let_def)
qed

lemma round_half_even_le: "y \<le> of_int k \<Longrightarrow> round_half_even y \<le> k"
proof (cases "\<lfloor>y\<rfloor> < k")
  case True
  then show ?thesis by (simp add: round_half_even_def Let_def)
next
  case False
  assume "y \<le> of_int k"
  then have "\<lfloor>y\<rfloor> \<le> k" by (simp add: floor_le_iff) 
  with False have fk: "\<lfloor>y\<rfloor> = k" by simp
  with \<open>y \<le> of_int k\<close> have "y = of_int k" using of_int_floor_le[of y] by simp
  then show ?thesis by (simp add: round_half_even_def Let_def)
qed

lemma py_round_ge: "of_int k / 10 ^ n \<le> x \<Longrightarrow> of_int k / 10 ^ n \<le> py_round x n"
proof -
  assume a: "of_int k / 10 ^ n \<le> x"
  have "of_int k \<le> x * 10 ^ n" using a by (simp add: pos_divide_le_eq)
  then have "k \<le> round_half_even (x * 10 ^ n)" by (rule round_half_even_ge)
  then show ?thesis by (simp add: py_round_def divide_le_cancel)
qed

lemma py_round_le: "x \<le> of_int k / 10 ^ n \<Longrightarrow> py_round x n \<le> of_int k / 10 ^ n"
proof -
  assume a: "x \<le> of_int k / 10 ^ n"
  have "x * 10 ^ n \<le> of_int k" using a by (simp add: pos_le_divide_eq)
  then have "round_half_even (x * 10 ^ n) \<le> k" by (rule round_half_even_le)
  then show ?thesis by (simp add: py_round_def divide_le_cancel)
qed

lemma py_round_nonneg: "0 \<le> x \<Longrightarrow> 0 \<le> py_round x n"
  using py_round_ge [of 0 n x] by simp

lemma py_round_le_int: "x \<le> of_int m \<Longrightarrow> py_round x n \<le> of_int m"
  using py_round_le [of x "m * 10 ^ n" n] by simp

lemma weight_vals:
  "weight ''C'' = 25 / 100" "weight ''J'' = 20 / 100" "weight ''D'' = 15 / 100"
  "weight ''R'' = 20 / 100" "weight ''F'' = 10 / 100" "weight ''O'' = 5 / 100"
  "weight ''P'' = 5 / 100"
  by (simp_all add: weight_def weights_def)


lemma py_round_int: "py_round (of_int k) n = of_int k"
proof -
  have "round_half_even (of_int (k * 10 ^ n)) = k * 10 ^ n"
    unfolding round_half_even_def Let_def by (simp only: floor_of_int) simp
  then have "round_half_even (of_int k * 10 ^ n) = k * 10 ^ n" by simp
  then show ?thesis by (simp add: py_round_def)
qed

lemma py_round_numeral [simp]: "py_round (numeral w) n = numeral w" "py_round 0 n = 0" "py_round 1 n = 1"
  using py_round_int [of "numeral w" n] py_round_int [of 0 n] py_round_int [of 1 n] by simp_all

subsection \<open>The examples, evaluated\<close>

lemma char_tests:
  "is_space (CHR ''A'') = False" "is_space (CHR ''r'') = False" "is_space (CHR ''1'') = False"
  "is_space (CHR ''z'') = False" "is_space (CHR ''U'') = False" "is_space (CHR ''x'') = False"
  "is_space (CHR ''y'') = False" "is_space (CHR '' '') = True"
  "is_digit (CHR ''0'') = True" "is_digit (CHR ''1'') = True" "is_digit (CHR ''/'') = False"
  by (simp_all add: is_space_def is_digit_def)

lemma strip_examples:
  "py_strip ''A paper'' = ''A paper''" "py_strip ''10.1000/xyz'' = ''10.1000/xyz''"
  "py_strip ''U'' = ''U''" "py_strip [] = []"
  by (simp_all add: py_strip_def char_tests)


lemma scenario_a_title: "stub_title scenario_a_stub = Inr ''A paper''"
  by (simp add: stub_title_def scenario_a_stub_def strip_examples)

lemma scenario_a_cited_by: "stub_cited_by scenario_a_stub = 12"
  by (simp add: stub_cited_by_def scenario_a_stub_def py_or_def)

lemma scenario_a_doi: "extract_doi_from_serp_item scenario_a_stub = Inr JNull"
  by (simp add: extract_doi_from_serp_item_def scenario_a_stub_def py_or_def scan_field_def)

lemma no_answers_fetch:
  "fetch_crossref_by_title t (crossref_title_response no_answers) = Inr (JDict [])"
  "fetch_semanticscholar_by_title t (citations_title_response no_answers)
     = Inr (0, JNull, False, JDict [])"
  by (simp_all add: no_answers_def fetch_crossref_by_title_def
      fetch_semanticscholar_by_title_def requests_get_def)

lemma scenario_a_row:
  "process_article example_config scenario_a_stub no_answers =
     Inr \<lparr>Scholar_Name = ''A. Author'', Title = JStr ''A paper'', Journal = JStr [],
          Volume = JStr [], Issue = JStr [], Year = None, Num_Authors = 0,
          Affiliations = ''N/A'', DOI = JStr [], Citations = 12, CPY = 0, is_OA = False,
          Funder_present = False, Author_affil_completeness = 0, Is_Retracted = False\<rparr>"
proof -
  have cr: "crossref_metadata JNull ''A paper'' no_answers = Inr (JDict [])"
    by (simp add: crossref_metadata_def no_answers_fetch)
  have mt: "merged_title (JDict []) ''A paper'' = Inr (JStr ''A paper'')"
    by (simp add: merged_title_def)
  have mj: "merged_journal (JDict []) scenario_a_stub = Inr (JStr [])"
    by (simp add: merged_journal_def scenario_a_stub_def py_or_def)
  have ge: "\<And>k. get_or_empty (JDict []) k = Inr (JStr [])"
    by (simp add: get_or_empty_def py_or_def)
  have ry: "resolve_year (JDict []) scenario_a_stub = Inr JNull"
    by (simp add: resolve_year_def registry_year_def date_part_def scenario_a_stub_def)
  have ac: "\<And>f. author_counts f (JDict []) scenario_a_stub = Inr (0, 0, [])"
    by (simp add: author_counts_def scenario_a_stub_def py_or_def)
  have ff: "funder_flag (JDict []) = Inr False"
    by (simp add: funder_flag_def)
  have df: "initial_doi_final (JDict []) JNull = Inr []"
    by (simp add: initial_doi_final_def py_or_def strip_examples)
  have rc: "resolve_citations [] ''A paper'' 12 (citations_doi_response no_answers)
        (citations_title_response no_answers)
      = Inr \<lparr>out_citations = 12, out_doi = JStr [], out_retracted = False,
             out_lookups = [ByTitle]\<rparr>"
    by (simp add: resolve_citations_def no_answers_fetch)
  show ?thesis
    unfolding process_article_def
    by (simp add: scenario_a_title scenario_a_cited_by scenario_a_doi cr mt mj ge ry ac ff df rc
        Let_def row_year_def compute_cpy_def py_or_def example_config_def)
qed

lemma scenario_b_doi: "extract_doi_from_serp_item scenario_b_stub = Inr (JStr ''10.1000/xyz'')"
  by (simp add: extract_doi_from_serp_item_def scenario_b_stub_def py_or_def scan_field_def
      doi_match_at_def char_tests is_digit_def is_space_def)

lemma scenario_b_title: "stub_title scenario_b_stub = Inr ''A paper''"
  by (simp add: stub_title_def scenario_b_stub_def strip_examples)

lemma scenario_b_cited_by: "stub_cited_by scenario_b_stub = 3"
  by (simp add: stub_cited_by_def scenario_b_stub_def py_or_def)

lemma scenario_b_metadata:
  "crossref_metadata (JStr ''10.1000/xyz'') ''A paper'' scenario_b_answers
     = Inr scenario_b_registry"
  by (simp add: crossref_metadata_def scenario_b_answers_def fetch_crossref_by_doi_def
      quote_plus_def requests_get_def response_json_def scenario_b_registry_def)

lemma scenario_b_authors:
  "author_counts f scenario_b_registry scenario_b_stub = Inr (1, 1, ''U'')"
  by (simp add: author_counts_def parse_crossref_authors_and_affiliations_def
      scenario_b_registry_def py_or_def strip_examples dedup_def)

lemma scenario_b_citations:
  "resolve_citations ''10.1000/xyz'' ''A paper'' 3 (citations_doi_response scenario_b_answers)
      (citations_title_response scenario_b_answers)
     = Inr \<lparr>out_citations = 7, out_doi = JStr ''10.1000/xyz'', out_retracted = False,
            out_lookups = [ByDoi]\<rparr>"
  by (simp add: resolve_citations_def scenario_b_answers_def fetch_semanticscholar_by_doi_def
      quote_plus_def requests_get_def response_json_def py_or_def)

lemma scenario_b_process:
  "process_article example_config scenario_b_stub scenario_b_answers = Inr scenario_b_row"
proof -
  have mt: "merged_title scenario_b_registry ''A paper'' = Inr (JStr ''A Paper'')"
    by (simp add: merged_title_def scenario_b_registry_def)
  have mj: "merged_journal scenario_b_registry scenario_b_stub = Inr (JStr [])"
    by (simp add: merged_journal_def scenario_b_registry_def scenario_b_stub_def py_or_def)
  have ge: "get_or_empty scenario_b_registry ''volume'' = Inr (JStr [])"
    "get_or_empty scenario_b_registry ''issue'' = Inr (JStr [])"
    by (simp_all add: get_or_empty_def scenario_b_registry_def py_or_def)
  have ry: "resolve_year scenario_b_registry scenario_b_stub = Inr (JInt 2025)"
    by (simp add: resolve_year_def registry_year_def date_part_def scenario_b_registry_def)
  have ff: "funder_flag scenario_b_registry = Inr True"
    by (simp add: funder_flag_def scenario_b_registry_def)
  have df: "initial_doi_final scenario_b_registry (JStr ''10.1000/xyz'') = Inr ''10.1000/xyz''"
    by (simp add: initial_doi_final_def scenario_b_registry_def py_or_def strip_examples)
  have oa: "fetch_unpaywall (JStr ''10.1000/xyz'') ''you@example.com''
      (unpaywall_response scenario_b_answers) = Inr True"
    by (simp add: fetch_unpaywall_def scenario_b_answers_def requests_get_def response_json_def)
  have cpy: "compute_cpy 2025 (Some 7) (JInt 2025) = 7"
    by (simp add: compute_cpy_def cpy_years_def py_div_def)
  show ?thesis
    unfolding process_article_def
    by (simp add: scenario_b_title scenario_b_cited_by scenario_b_doi scenario_b_metadata
        scenario_b_authors scenario_b_citations mt mj ge ry ff df oa cpy Let_def row_year_def
        py_or_def example_config_def scenario_b_row_def)
qed

lemma scenario_b_score:
  "score_rows [scenario_b_row]
     = Inr [\<lparr>base = scenario_b_row, RIM = 85, Risk_Factor = 15 / 100\<rparr>]"
proof -
  have c: "citation_component 7 7 = Inr 1"
    by (simp add: citation_component_def log1p_def py_div_def)
  have w: "weighted_sum 1 (1 / 2) 1 1 1 1 0 * 100 = 85"
    by (simp add: weighted_sum_def weight_vals)
  have r: "rim_of_row 7 scenario_b_row = Inr 85"
    by (simp add: rim_of_row_def compute_rim_with_logC_def scenario_b_row_def c w)
  have m: "CPY scenario_b_row = 7"
    by (simp add: scenario_b_row_def)
  show ?thesis
    by (simp add: score_rows_def m r risk_factor_def)
qed

lemma scenario_b_analyze:
  "analyze example_config [(scenario_b_stub, scenario_b_answers)]
     = Inr [\<lparr>base = scenario_b_row, RIM = 85, Risk_Factor = 15 / 100\<rparr>]"
  by (simp add: analyze_def scenario_b_process scenario_b_score)

subsection \<open>The composite score\<close>

lemma citation_component_unit:
  assumes "0 \<le> cpy" "cpy \<le> mx"
  shows "\<exists>C. citation_component cpy mx = Inr C \<and> 0 \<le> C \<and> C \<le> 1"
proof (cases "0 < mx")
  case True
  then have "0 < ln (1 + mx)" by (simp add: ln_gt_zero)
  moreover have "0 \<le> ln (1 + cpy)" using assms(1) by simp
  moreover have "ln (1 + cpy) \<le> ln (1 + mx)" using assms by simp
  ultimately show ?thesis using True assms by (simp add: citation_component_def log1p_def py_div_def)
next
  case False
  then show ?thesis by (simp add: citation_component_def)
qed

lemma citation_component_le1:
  assumes "citation_component cpy mx = Inr C" "cpy \<le> mx"
  shows "C \<le> 1"
proof (cases "0 < mx")
  case True
  with assms(1) have c: "- 1 < cpy" "C = ln (1 + cpy) / ln (1 + mx)"
    by (auto simp: citation_component_def log1p_def py_div_def split: if_splits)
  have "0 < ln (1 + mx)" using True by (simp add: ln_gt_zero)
  moreover have "ln (1 + cpy) \<le> ln (1 + mx)" using c(1) assms(2) by simp
  ultimately show ?thesis using c(2) by simp
next
  case False
  with assms(1) show ?thesis by (auto simp: citation_component_def split: if_splits)
qed

lemma rim_of_row_le_85:
  assumes "rim_of_row mx r = Inr x" "CPY r \<le> mx" "Author_affil_completeness r \<le> 1"
  shows "x \<le> 85"
proof -
  from assms(1) obtain C where C: "citation_component (CPY r) mx = Inr C"
    and x: "x = py_round (weighted_sum C (1 / 2) (if is_OA r then 1 else 0)
        (if Is_Retracted r then 0 else 1) (if Funder_present r then 1 else 0)
        (Author_affil_completeness r) 0 * 100) 2"
    by (auto simp: rim_of_row_def compute_rim_with_logC_def py_bind_eq_Inr)
  have "C \<le> 1" using C assms(2) by (rule citation_component_le1)
  then have "weighted_sum C (1 / 2) (if is_OA r then 1 else 0)
        (if Is_Retracted r then 0 else 1) (if Funder_present r then 1 else 0)
        (Author_affil_completeness r) 0 * 100 \<le> of_int 85"
    using assms(3) by (simp add: weighted_sum_def weight_vals)
  then have "x \<le> of_int 85" unfolding x by (rule py_round_le_int)
  then show ?thesis by simp
qed



subsection \<open>The risk factor\<close>

lemma score_rows_member:
  assumes "score_rows rows = Inr out" "s \<in> set out"
  shows "Risk_Factor s = risk_factor (RIM s)"
proof -
  from assms(1) obtain rims where
    out: "out = map2 (\<lambda>r x. \<lparr>base = r, RIM = x, Risk_Factor = risk_factor x\<rparr>) rows rims"
    by (auto simp: score_rows_def py_bind_eq_Inr)
  with assms(2) obtain r x where "s = \<lparr>base = r, RIM = x, Risk_Factor = risk_factor x\<rparr>"
    by (auto simp: in_set_zip)
  then show ?thesis by simp
qed

text \<open>
  Claim C2. For every record of a scored batch the risk factor is \<open>1 - rim / 100\<close> clamped
  to \<open>[0, 1]\<close>; the clamp maps a RIM of 0 to risk 1 and a RIM of 100 to risk 0.
\<close>

theorem risk_factor_clamped:
  assumes "score_rows rows = Inr out" "s \<in> set out"
  shows "Risk_Factor s =
      (if 1 - RIM s / 100 < 0 then 0 else if 1 < 1 - RIM s / 100 then 1 else 1 - RIM s / 100)
    \<and> 0 \<le> Risk_Factor s \<and> Risk_Factor s \<le> 1
    \<and> risk_factor 0 = 1 \<and> risk_factor 100 = 0"
proof -
  have "Risk_Factor s = risk_factor (RIM s)" using assms by (rule score_rows_member)
  then show ?thesis by (simp add: risk_factor_def)
qed

theorem risk_factor_clamped_witness:
  "score_rows [scenario_b_row]
     = Inr [\<lparr>base = scenario_b_row, RIM = 85, Risk_Factor = 15 / 100\<rparr>]
   \<and> Risk_Factor \<lparr>base = scenario_b_row, RIM = 85, Risk_Factor = 15 / 100\<rparr> = 1 - 85 / 100
   \<and> risk_factor 0 = 1 \<and> risk_factor 100 = 0"
  using risk_factor_clamped [OF scenario_b_score,
      of "\<lparr>base = scenario_b_row, RIM = 85, Risk_Factor = 15 / 100\<rparr>"]
    scenario_b_score
  by simp

subsection \<open>Citations per year\<close>

text \<open>
  Claim C8. For a year that is present and that \<open>int()\<close> converts to \<open>y\<close>, \<open>compute_cpy\<close> returns
  \<open>citations / max(1, CURRENT_YEAR - y + 1)\<close>; for an absent year it returns 0. The divisor
  is at least 1 for every year; for a year after the reference year it is 1. A year that
  \<open>int()\<close> rejects gives 0 as well.
\<close>

theorem compute_cpy_formula:
  "(py_truthy year \<and> py_int year = Inr y \<longrightarrow>
      compute_cpy cy (Some c) year = real_of_int c / real_of_int (max 1 (cy - y + 1))
      \<and> compute_cpy cy (Some c) year = real_of_int c / real_of_int (cpy_years cy y))
   \<and> (py_truthy year \<and> py_int year = Inr y \<and> cy < y \<longrightarrow>
      compute_cpy cy (Some c) year = real_of_int c)
   \<and> (\<not> py_truthy year \<longrightarrow> compute_cpy cy cit year = 0)
   \<and> (py_int year = Inl e \<longrightarrow> compute_cpy cy cit year = 0)
   \<and> 1 \<le> cpy_years cy y"
  by (cases cit) (simp_all add: compute_cpy_def cpy_years_def py_div_def)

theorem compute_cpy_formula_witness:
  "compute_cpy 2025 (Some 12) (JInt 2020) = 2
   \<and> compute_cpy 2025 (Some 12) (JInt 2030) = 12
   \<and> compute_cpy 2025 (Some 12) JNull = 0
   \<and> cpy_years 2025 2030 = 1"
proof -
  have a: "compute_cpy 2025 (Some 12) (JInt 2020) = 2"
    using compute_cpy_formula [of "JInt 2020" 2020 2025 12] by simp
  have b: "compute_cpy 2025 (Some 12) (JInt 2030) = 12"
    using compute_cpy_formula [of "JInt 2030" 2030 2025 12] by simp
  have c: "compute_cpy 2025 (Some 12) JNull = 0"
    using compute_cpy_formula [of JNull 0 2025 12 "Some 12"] by simp
  have d: "cpy_years 2025 2030 = 1" by (simp add: cpy_years_def)
  from a b c d show ?thesis by simp
qed

subsection \<open>The openness resolver\<close>

text \<open>
  Claim C9. \<open>fetch_unpaywall\<close> never raises: it returns a bool for every DOI value and every
  outcome of the request. It returns \<open>False\<close> when the DOI is absent, when the request fails,
  when the status is not 200 and when the body is not JSON.
\<close>

theorem fetch_unpaywall_never_raises:
  "(\<exists>b. fetch_unpaywall doi email resp = Inr b)
   \<and> (\<not> py_truthy doi \<longrightarrow> fetch_unpaywall doi email resp = Inr False)
   \<and> (resp = ConnError \<longrightarrow> fetch_unpaywall doi email resp = Inr False)
   \<and> (\<forall>status body. resp = Response status body \<and> status \<noteq> 200 \<longrightarrow>
        fetch_unpaywall doi email resp = Inr False)
   \<and> (\<forall>status. resp = Response status None \<longrightarrow> fetch_unpaywall doi email resp = Inr False)"
  by (auto simp: fetch_unpaywall_def requests_get_def response_json_def py_bind_def
      split: sum.splits option.splits http_result.splits)

theorem fetch_unpaywall_never_raises_witness:
  "fetch_unpaywall JNull ''you@example.com'' (Response 200 (Some (JDict [(''is_oa'', JBool True)])))
     = Inr False
   \<and> fetch_unpaywall (JStr ''10.1000/xyz'') ''you@example.com'' ConnError = Inr False
   \<and> fetch_unpaywall (JStr ''10.1000/xyz'') ''you@example.com''
        (Response 404 (Some (JDict [(''is_oa'', JBool True)]))) = Inr False
   \<and> fetch_unpaywall (JStr ''10.1000/xyz'') ''you@example.com'' (Response 200 None) = Inr False"
proof -
  have a: "fetch_unpaywall JNull ''you@example.com''
      (Response 200 (Some (JDict [(''is_oa'', JBool True)]))) = Inr False"
    using fetch_unpaywall_never_raises [of JNull "''you@example.com''"
        "Response 200 (Some (JDict [(''is_oa'', JBool True)]))"]
    by simp
  have b: "fetch_unpaywall (JStr ''10.1000/xyz'') ''you@example.com'' ConnError = Inr False"
    using fetch_unpaywall_never_raises [of "JStr ''10.1000/xyz''" "''you@example.com''" ConnError]
    by simp
  have c: "fetch_unpaywall (JStr ''10.1000/xyz'') ''you@example.com''
      (Response 404 (Some (JDict [(''is_oa'', JBool True)]))) = Inr False"
    using fetch_unpaywall_never_raises [of "JStr ''10.1000/xyz''" "''you@example.com''"
        "Response 404 (Some (JDict [(''is_oa'', JBool True)]))"]
    by simp
  have d: "fetch_unpaywall (JStr ''10.1000/xyz'') ''you@example.com'' (Response 200 None)
      = Inr False"
    using fetch_unpaywall_never_raises [of "JStr ''10.1000/xyz''" "''you@example.com''"
        "Response 200 None"]
    by simp
  from a b c d show ?thesis by simp
qed

text \<open>The call site, line 315: a record without a DOI is never open access.\<close>

lemma record_without_doi_not_open_access:
  assumes "process_article cfg art rs = Inr r" "\<not> py_truthy (DOI r)"
  shows "is_OA r = False"
proof -
  from assms(1) obtain out :: citation_outcome where
    oa: "(if py_truthy (out_doi out)
        then fetch_unpaywall (out_doi out) (UNPAYWALL_EMAIL cfg) (unpaywall_response rs)
        else Inr False) = Inr (is_OA r)"
    and d: "DOI r = py_or (out_doi out) (JStr [])"
    unfolding process_article_def Let_def
    by (auto simp: py_bind_eq_Inr split: prod.splits split del: if_split)
  from assms(2) d have "\<not> py_truthy (out_doi out)" by (simp add: py_or_def split: if_splits)
  with oa show ?thesis by simp
qed

subsection \<open>The citation resolver\<close>

text \<open>
  What the block computes. A flag the DOI lookup set is never reset, and the flag of a title
  lookup that returns citations is joined to it with \<open>or\<close> (line 310). That line stands under
  \<open>if sc_cit:\<close> (line 306), so the flag of a title lookup that returns no citations is not
  read.
\<close>

lemma retraction_flag_as_computed:
  assumes "resolve_citations doi title cb r_doi r_title = Inr out"
    and "fetch_semanticscholar_by_doi (JStr doi) r_doi = Inr (c, y, fd)"
    and "fetch_semanticscholar_by_title title r_title = Inr (n, y', ft, ext)"
  shows "out_retracted out
      = ((ByDoi \<in> set (out_lookups out) \<and> fd) \<or> (ByTitle \<in> set (out_lookups out) \<and> n \<noteq> 0 \<and> ft))
    \<and> (ByDoi \<in> set (out_lookups out) \<and> fd \<longrightarrow> out_retracted out)
    \<and> (ByDoi \<in> set (out_lookups out) \<longleftrightarrow> doi \<noteq> [])
    \<and> (ByTitle \<in> set (out_lookups out) \<longleftrightarrow> doi = [] \<or> (c = 0 \<and> \<not> fd))"
  using assms
  by (auto simp: resolve_citations_def py_bind_eq_Inr split: if_splits)

lemma retracted_uncited_hit_reported:
  "fetch_semanticscholar_by_title t retracted_uncited_hit = Inr (0, JNull, True, JDict [])"
  by (simp add: fetch_semanticscholar_by_title_def retracted_uncited_hit_def requests_get_def
      response_json_def py_or_def)

lemma scenario_r_row:
  "process_article example_config scenario_a_stub scenario_r_answers =
     Inr \<lparr>Scholar_Name = ''A. Author'', Title = JStr ''A paper'', Journal = JStr [],
          Volume = JStr [], Issue = JStr [], Year = None, Num_Authors = 0,
          Affiliations = ''N/A'', DOI = JStr [], Citations = 12, CPY = 0, is_OA = False,
          Funder_present = False, Author_affil_completeness = 0, Is_Retracted = False\<rparr>"
proof -
  have cr: "crossref_metadata JNull ''A paper'' scenario_r_answers = Inr (JDict [])"
    by (simp add: crossref_metadata_def scenario_r_answers_def fetch_crossref_by_title_def
        requests_get_def)
  have mt: "merged_title (JDict []) ''A paper'' = Inr (JStr ''A paper'')"
    by (simp add: merged_title_def)
  have mj: "merged_journal (JDict []) scenario_a_stub = Inr (JStr [])"
    by (simp add: merged_journal_def scenario_a_stub_def py_or_def)
  have ge: "\<And>k. get_or_empty (JDict []) k = Inr (JStr [])"
    by (simp add: get_or_empty_def py_or_def)
  have ry: "resolve_year (JDict []) scenario_a_stub = Inr JNull"
    by (simp add: resolve_year_def registry_year_def date_part_def scenario_a_stub_def)
  have ac: "\<And>f. author_counts f (JDict []) scenario_a_stub = Inr (0, 0, [])"
    by (simp add: author_counts_def scenario_a_stub_def py_or_def)
  have ff: "funder_flag (JDict []) = Inr False"
    by (simp add: funder_flag_def)
  have df: "initial_doi_final (JDict []) JNull = Inr []"
    by (simp add: initial_doi_final_def py_or_def strip_examples)
  have rs: "citations_title_response scenario_r_answers = retracted_uncited_hit"
    by (simp add: scenario_r_answers_def)
  have rc: "resolve_citations [] ''A paper'' 12 (citations_doi_response scenario_r_answers)
        (citations_title_response scenario_r_answers)
      = Inr \<lparr>out_citations = 12, out_doi = JStr [], out_retracted = False,
             out_lookups = [ByTitle]\<rparr>"
    by (simp add: resolve_citations_def rs retracted_uncited_hit_reported)
  show ?thesis
    unfolding process_article_def
    by (simp add: scenario_a_title scenario_a_cited_by scenario_a_doi cr mt mj ge ry ac ff df rc
        Let_def row_year_def compute_cpy_def py_or_def example_config_def)
qed

text \<open>
  Claim C3. The final retraction flag is to be the \<open>or\<close> of the flags of every lookup that is
  made. The code does not do this. For a stub without a DOI the title lookup is made; it
  reports a retracted paper with no citations, and the record is not retracted. With a DOI
  whose lookup fails, the same title answer is dropped in the same way. The lookup by DOI,
  given the same answer (retracted, no citations), keeps the flag.
\<close>

theorem retraction_flag_dropped_for_uncited_title_hit:
  "fetch_semanticscholar_by_title ''A paper'' retracted_uncited_hit
     = Inr (0, JNull, True, JDict [])
   \<and> process_article example_config scenario_a_stub scenario_r_answers =
     Inr \<lparr>Scholar_Name = ''A. Author'', Title = JStr ''A paper'', Journal = JStr [],
          Volume = JStr [], Issue = JStr [], Year = None, Num_Authors = 0,
          Affiliations = ''N/A'', DOI = JStr [], Citations = 12, CPY = 0, is_OA = False,
          Funder_present = False, Author_affil_completeness = 0, Is_Retracted = False\<rparr>
   \<and> resolve_citations [] ''A paper'' 12 ConnError retracted_uncited_hit
     = Inr \<lparr>out_citations = 12, out_doi = JStr [], out_retracted = False,
            out_lookups = [ByTitle]\<rparr>
   \<and> resolve_citations ''10.1000/xyz'' ''A paper'' 12 ConnError retracted_uncited_hit
     = Inr \<lparr>out_citations = 12, out_doi = JStr ''10.1000/xyz'', out_retracted = False,
            out_lookups = [ByDoi, ByTitle]\<rparr>
   \<and> resolve_citations ''10.1000/xyz'' ''A paper'' 12
        (Response 200 (Some (JDict [(''citationCount'', JInt 0), (''isRetracted'', JBool True)])))
        ConnError
     = Inr \<lparr>out_citations = 12, out_doi = JStr ''10.1000/xyz'', out_retracted = True,
            out_lookups = [ByDoi]\<rparr>"
proof -
  have d0: "fetch_semanticscholar_by_doi (JStr ''10.1000/xyz'') ConnError = Inr (0, JNull, False)"
    by (simp add: fetch_semanticscholar_by_doi_def quote_plus_def requests_get_def)
  have d1: "fetch_semanticscholar_by_doi (JStr ''10.1000/xyz'')
      (Response 200 (Some (JDict [(''citationCount'', JInt 0), (''isRetracted'', JBool True)])))
     = Inr (0, JNull, True)"
    by (simp add: fetch_semanticscholar_by_doi_def quote_plus_def requests_get_def
        response_json_def py_or_def)
  have a: "resolve_citations [] ''A paper'' 12 ConnError retracted_uncited_hit
     = Inr \<lparr>out_citations = 12, out_doi = JStr [], out_retracted = False,
            out_lookups = [ByTitle]\<rparr>"
    by (simp add: resolve_citations_def retracted_uncited_hit_reported)
  have b: "resolve_citations ''10.1000/xyz'' ''A paper'' 12 ConnError retracted_uncited_hit
     = Inr \<lparr>out_citations = 12, out_doi = JStr ''10.1000/xyz'', out_retracted = False,
            out_lookups = [ByDoi, ByTitle]\<rparr>"
    by (simp add: resolve_citations_def d0 retracted_uncited_hit_reported)
  have c: "resolve_citations ''10.1000/xyz'' ''A paper'' 12
        (Response 200 (Some (JDict [(''citationCount'', JInt 0), (''isRetracted'', JBool True)])))
        ConnError
     = Inr \<lparr>out_citations = 12, out_doi = JStr ''10.1000/xyz'', out_retracted = True,
            out_lookups = [ByDoi]\<rparr>"
    by (simp add: resolve_citations_def d1)
  from retracted_uncited_hit_reported [of "''A paper''"] scenario_r_row a b c
  show ?thesis by simp
qed

text \<open>
  Claim C4. When the DOI is not empty and the DOI lookup returns a citation count other than
  zero, the title lookup is not made: the only lookup is the one by DOI, the citation count
  is the one it returned, and the outcome is the same whatever the title lookup would have
  answered.
\<close>

theorem title_lookup_skipped_after_doi_hit:
  assumes "doi \<noteq> []"
    and "fetch_semanticscholar_by_doi (JStr doi) r_doi = Inr (c, y, fd)"
    and "c \<noteq> 0"
  shows "\<exists>out. resolve_citations doi title cb r_doi r_title = Inr out
      \<and> ByTitle \<notin> set (out_lookups out)
      \<and> out_lookups out = [ByDoi]
      \<and> out_citations out = c
      \<and> (\<forall>r'. resolve_citations doi title cb r_doi r' = Inr out)"
  using assms by (simp add: resolve_citations_def)

theorem title_lookup_skipped_after_doi_hit_witness:
  "resolve_citations ''10.1000/xyz'' ''A paper'' 3 (citations_doi_response scenario_b_answers)
      (Response 200 (Some (JDict [(''data'', JList [JDict [(''citationCount'', JInt 4)]])])))
     = Inr \<lparr>out_citations = 7, out_doi = JStr ''10.1000/xyz'', out_retracted = False,
            out_lookups = [ByDoi]\<rparr>"
proof -
  have n: "''10.1000/xyz'' \<noteq> []" by simp
  have d: "fetch_semanticscholar_by_doi (JStr ''10.1000/xyz'')
      (citations_doi_response scenario_b_answers) = Inr (7, JInt 2025, False)"
    by (simp add: scenario_b_answers_def fetch_semanticscholar_by_doi_def quote_plus_def
        requests_get_def response_json_def py_or_def)
  have c: "(7::int) \<noteq> 0" by simp
  from title_lookup_skipped_after_doi_hit [OF n d c, of "''A paper''" 3
      "citations_title_response scenario_b_answers"]
  obtain out where
    o: "resolve_citations ''10.1000/xyz'' ''A paper'' 3
      (citations_doi_response scenario_b_answers)
      (citations_title_response scenario_b_answers) = Inr out"
    and a: "\<forall>r'. resolve_citations ''10.1000/xyz'' ''A paper'' 3
      (citations_doi_response scenario_b_answers) r' = Inr out"
    by blast
  from o have "out = \<lparr>out_citations = 7, out_doi = JStr ''10.1000/xyz'', out_retracted = False,
      out_lookups = [ByDoi]\<rparr>"
    by (simp add: scenario_b_citations)
  with a show ?thesis by simp
qed

text \<open>The same at the level of the record: the row does not depend on the title lookup.\<close>

lemma resolve_citations_doi_hit:
  assumes "doi \<noteq> []"
    and "fetch_semanticscholar_by_doi (JStr doi) r_doi = Inr (c, y, fd)"
    and "c \<noteq> 0"
  shows "resolve_citations doi title cb r_doi r_title
    = Inr \<lparr>out_citations = c, out_doi = JStr doi, out_retracted = fd, out_lookups = [ByDoi]\<rparr>"
  using assms by (simp add: resolve_citations_def)

lemma record_ignores_title_lookup_after_doi_hit:
  assumes "stub_title art = Inr t"
    and "extract_doi_from_serp_item art = Inr d"
    and "crossref_metadata d t rs = Inr cr"
    and "initial_doi_final cr d = Inr doi"
    and "doi \<noteq> []"
    and "fetch_semanticscholar_by_doi (JStr doi) (citations_doi_response rs) = Inr (c, y, fd)"
    and "c \<noteq> 0"
  shows "process_article cfg art (rs\<lparr>citations_title_response := x\<rparr>) = process_article cfg art rs"
proof -
  have m: "crossref_metadata d t (rs\<lparr>citations_title_response := x\<rparr>) = Inr cr"
    using assms(3) by (simp add: crossref_metadata_def cong: if_cong)
  have a: "\<And>q. resolve_citations doi t (stub_cited_by art) (citations_doi_response rs) q
    = Inr \<lparr>out_citations = c, out_doi = JStr doi, out_retracted = fd, out_lookups = [ByDoi]\<rparr>"
    using assms(5,6,7) by (rule resolve_citations_doi_hit)
  show ?thesis
    unfolding process_article_def
    by (simp add: assms(1,2,3,4) m a Let_def)
qed

subsection \<open>The record merger\<close>

text \<open>
  Claim C5. A stub whose inline \<open>cited_by.value\<close> is 12 and from which no DOI can be
  extracted, with the registry's title lookup returning nothing and the citation service's
  title lookup returning nothing (with no DOI its lookup by DOI is not made): the record
  produced has 12 citations, the empty DOI, and is not open access.
\<close>

theorem scenario_a_stub_fallback:
  assumes "process_article cfg art rs = Inr r"
    and "py_get art ''cited_by'' JNull = Inr (JDict cb)"
    and "map_of cb ''value'' = Some (JInt 12)"
    and "extract_doi_from_serp_item art = Inr JNull"
    and "stub_title art = Inr t"
    and "fetch_crossref_by_title t (crossref_title_response rs) = Inr (JDict [])"
    and "fetch_semanticscholar_by_title t (citations_title_response rs)
          = Inr (0, JNull, False, JDict [])"
  shows "Citations r = 12 \<and> DOI r = JStr [] \<and> is_OA r = False"
proof -
  from assms(1) obtain cr doi0 out where
    cr: "crossref_metadata JNull t rs = Inr cr"
    and doi0: "initial_doi_final cr JNull = Inr doi0"
    and out: "resolve_citations doi0 t (stub_cited_by art)
          (citations_doi_response rs) (citations_title_response rs) = Inr out"
    and oa: "(if py_truthy (out_doi out)
        then fetch_unpaywall (out_doi out) (UNPAYWALL_EMAIL cfg) (unpaywall_response rs)
        else Inr False) = Inr (is_OA r)"
    and fields: "Citations r = out_citations out" "DOI r = py_or (out_doi out) (JStr [])"
    unfolding process_article_def Let_def
    by (auto simp: py_bind_eq_Inr assms(4,5) split: prod.splits split del: if_split)
  have cb: "stub_cited_by art = 12"
    using assms(2,3) by (simp add: stub_cited_by_def py_or_def)
  from cr assms(6) have cr0: "cr = JDict []" by (simp add: crossref_metadata_def)
  from doi0 have d0: "doi0 = []"
    unfolding cr0 by (simp add: initial_doi_final_def py_or_def py_strip_def)
  from out have o: "out = \<lparr>out_citations = 12, out_doi = JStr [], out_retracted = False,
      out_lookups = [ByTitle]\<rparr>"
    unfolding d0 cb by (simp add: resolve_citations_def assms(7))
  from oa fields show ?thesis unfolding o by (simp add: py_or_def)
qed

theorem scenario_a_stub_fallback_witness:
  "process_article example_config scenario_a_stub no_answers =
     Inr \<lparr>Scholar_Name = ''A. Author'', Title = JStr ''A paper'', Journal = JStr [],
          Volume = JStr [], Issue = JStr [], Year = None, Num_Authors = 0,
          Affiliations = ''N/A'', DOI = JStr [], Citations = 12, CPY = 0, is_OA = False,
          Funder_present = False, Author_affil_completeness = 0, Is_Retracted = False\<rparr>
   \<and> Citations \<lparr>Scholar_Name = ''A. Author'', Title = JStr ''A paper'', Journal = JStr [],
          Volume = JStr [], Issue = JStr [], Year = None, Num_Authors = 0,
          Affiliations = ''N/A'', DOI = JStr [], Citations = 12, CPY = 0, is_OA = False,
          Funder_present = False, Author_affil_completeness = 0, Is_Retracted = False\<rparr> = 12"
proof -
  have g: "py_get scenario_a_stub ''cited_by'' JNull = Inr (JDict [(''value'', JInt 12)])"
    by (simp add: scenario_a_stub_def)
  have v: "map_of [(''value'', JInt 12)] ''value'' = Some (JInt 12)"
    by simp
  from scenario_a_stub_fallback [OF scenario_a_row g v scenario_a_doi scenario_a_title
      no_answers_fetch(1) no_answers_fetch(2)] scenario_a_row
  show ?thesis by simp
qed

text \<open>
  Claim C6, as the code has it. The merged title is the first entry of the registry record's
  title list when that list is not empty, and the stub's title otherwise. It is the empty
  string only when the value so chosen is empty: the registry's first title, or the stub's
  title when the registry has none.
\<close>

theorem merged_title_choice:
  assumes "py_get cr ''title'' JNull = Inr t"
  shows "(py_truthy t \<longrightarrow> merged_title cr s = py_index0 t)
    \<and> (\<not> py_truthy t \<longrightarrow> merged_title cr s = Inr (JStr s))
    \<and> (merged_title cr s = Inr (JStr []) \<longrightarrow>
         (py_truthy t \<and> py_index0 t = Inr (JStr [])) \<or> (\<not> py_truthy t \<and> s = []))"
proof -
  from assms obtain kvs where cr: "cr = JDict kvs" by (cases cr) simp_all
  have d: "py_truthy t \<Longrightarrow> py_get cr ''title'' (JList [JStr []]) = Inr t"
    using assms unfolding cr by (auto split: option.splits)
  show ?thesis using assms d by (auto simp: merged_title_def)
qed

theorem merged_title_choice_witness:
  "merged_title (JDict [(''title'', JList [JStr ''Registry title''])]) ''Stub title''
     = Inr (JStr ''Registry title'')
   \<and> merged_title (JDict [(''DOI'', JStr ''10.1000/xyz'')]) ''Stub title''
     = Inr (JStr ''Stub title'')"
proof -
  have a: "py_get (JDict [(''title'', JList [JStr ''Registry title''])]) ''title'' JNull
      = Inr (JList [JStr ''Registry title''])"
    by simp
  have b: "py_get (JDict [(''DOI'', JStr ''10.1000/xyz'')]) ''title'' JNull = Inr JNull"
    by simp
  from merged_title_choice [OF a, of "''Stub title''"]
    merged_title_choice [OF b, of "''Stub title''"]
  show ?thesis by simp
qed

text \<open>
  The claim as stated fails: the registry's title list holds one empty string, the stub's
  title is not empty, and the merged title is empty.
\<close>

theorem merged_title_counterexample:
  "merged_title (JDict [(''title'', JList [JStr []])]) ''Paper'' = Inr (JStr [])
   \<and> ''Paper'' \<noteq> []"
  by (simp add: merged_title_def)




subsection \<open>The batch\<close>

lemma py_iter_length:
  assumes "py_len v = Inr n" "py_iter v = Inr l"
  shows "length l = n"
  using assms by (cases v) auto

lemma authors_loop_count:
  "authors_loop repr l = Inr (k, ns) \<Longrightarrow> k \<le> length l"
proof (induction l arbitrary: k ns)
  case Nil
  then show ?case by simp
next
  case (Cons a rest)
  from Cons.prems obtain k1 k2 ns2 where
    rest: "authors_loop repr rest = Inr (k2, ns2)" and k: "k = k1 + k2" and k1: "k1 \<le> 1"
    by (auto simp: py_bind_eq_Inr Let_def split: if_splits)
  from Cons.IH [OF rest] k k1 show ?case by simp
qed

lemma parse_crossref_count:
  assumes "parse_crossref_authors_and_affiliations repr cr = Inr (n, k, s)"
  shows "k \<le> n"
proof -
  from assms obtain v l ns where
    len: "py_len (py_or v (JList [])) = Inr n" and it: "py_iter (py_or v (JList [])) = Inr l"
    and loop: "authors_loop repr l = Inr (k, ns)"
    by (auto simp: parse_crossref_authors_and_affiliations_def py_bind_eq_Inr Let_def)
  from len it have "length l = n" by (rule py_iter_length)
  with authors_loop_count [OF loop] show ?thesis by simp
qed

lemma author_counts_le:
  assumes "author_counts repr cr art = Inr (n, k, s)"
  shows "k \<le> n"
proof -
  from assms obtain n0 where
    p: "(if py_truthy cr then parse_crossref_authors_and_affiliations repr cr
         else Inr (0, 0, [])) = Inr (n0, k, s)"
    and n: "n0 \<noteq> 0 \<Longrightarrow> n = n0"
    by (auto simp: author_counts_def py_bind_eq_Inr Let_def split: if_splits)
  have "k \<le> n0"
  proof (cases "py_truthy cr")
    case True
    with p show ?thesis by (auto dest: parse_crossref_count)
  next
    case False
    with p show ?thesis by simp
  qed
  then show ?thesis using n by (cases "n0 = 0") auto
qed

lemma process_article_completeness:
  assumes "process_article cfg art rs = Inr r"
  shows "0 \<le> Author_affil_completeness r \<and> Author_affil_completeness r \<le> 1"
proof -
  from assms obtain cr n k affs where
    ac: "author_counts (repr_of cfg) cr art = Inr (n, k, affs)"
    and c: "Author_affil_completeness r = py_round (if n \<noteq> 0 then real k / real n else 0) 3"
    unfolding process_article_def Let_def
    by (auto simp: py_bind_eq_Inr split: prod.splits split del: if_split)
  have kn: "k \<le> n" using ac by (rule author_counts_le)
  define q where "q = (if n \<noteq> 0 then real k / real n else 0)"
  have "0 \<le> q" by (simp add: q_def)
  then have lo: "0 \<le> py_round q 3" by (rule py_round_nonneg)
  have "q \<le> of_int 1" using kn by (simp add: q_def)
  then have "py_round q 3 \<le> of_int 1" by (rule py_round_le_int)
  with lo show ?thesis by (simp add: c q_def)
qed

lemma compute_cpy_nonneg: "0 \<le> c \<Longrightarrow> 0 \<le> compute_cpy cy (Some c) year"
  by (simp add: compute_cpy_def py_bind_def py_div_def cpy_years_def split: sum.splits)

lemma process_article_cpy_nonneg:
  assumes "process_article cfg art rs = Inr r" "0 \<le> Citations r"
  shows "0 \<le> CPY r"
proof -
  from assms(1) obtain year where
    "CPY r = py_round (compute_cpy (CURRENT_YEAR cfg) (Some (Citations r)) (py_or year JNull)) 3"
    unfolding process_article_def Let_def
    by (auto simp: py_bind_eq_Inr split: prod.splits split del: if_split)
  with assms(2) show ?thesis by (simp add: py_round_nonneg compute_cpy_nonneg)
qed

lemma process_all_member:
  "process_all cfg stubs = Inr rows \<Longrightarrow> r \<in> set rows \<Longrightarrow>
   \<exists>art rs. process_article cfg art rs = Inr r"
proof (induction stubs arbitrary: rows)
  case Nil
  then show ?case by simp
next
  case (Cons ar rest)
  from Cons.prems(1) obtain r0 rows0 where
    a: "process_article cfg (fst ar) (snd ar) = Inr r0"
    and b: "process_all cfg rest = Inr rows0" and c: "rows = r0 # rows0"
    by (auto simp: py_bind_eq_Inr)
  show ?case
  proof (cases "r = r0")
    case True
    with a show ?thesis by blast
  next
    case False
    with Cons.prems(2) c have "r \<in> set rows0" by simp
    with Cons.IH [OF b] show ?thesis .
  qed
qed

lemma max_cpy_upper: "r \<in> set rows \<Longrightarrow> CPY r \<le> max_cpy rows"
  by (induction rows rule: max_cpy.induct) auto

lemma rim_column_zip:
  "rim_column mx rows = Inr rims \<Longrightarrow> (r, x) \<in> set (zip rows rims) \<Longrightarrow> rim_of_row mx r = Inr x"
proof (induction rows arbitrary: rims)
  case Nil
  then show ?case by simp
next
  case (Cons r0 rest)
  from Cons.prems(1) obtain x0 xs where
    a: "rim_of_row mx r0 = Inr x0" and b: "rim_column mx rest = Inr xs" and c: "rims = x0 # xs"
    by (auto simp: py_bind_eq_Inr)
  from Cons.prems(2) c have "(r, x) = (r0, x0) \<or> (r, x) \<in> set (zip rest xs)" by simp
  then show ?case
  proof
    assume "(r, x) = (r0, x0)"
    with a show ?thesis by simp
  next
    assume "(r, x) \<in> set (zip rest xs)"
    with Cons.IH [OF b] show ?thesis .
  qed
qed

lemma rim_of_row_nonneg:
  assumes "rim_of_row mx r = Inr x" "0 \<le> CPY r" "0 \<le> Author_affil_completeness r"
  shows "0 \<le> x"
proof -
  from assms(1) obtain C where C: "citation_component (CPY r) mx = Inr C"
    and x: "x = py_round (weighted_sum C (1 / 2) (if is_OA r then 1 else 0)
        (if Is_Retracted r then 0 else 1) (if Funder_present r then 1 else 0)
        (Author_affil_completeness r) 0 * 100) 2"
    by (auto simp: rim_of_row_def compute_rim_with_logC_def py_bind_eq_Inr)
  have "0 \<le> C"
  proof (cases "0 < mx")
    case True
    then have "0 < ln (1 + mx)" by (simp add: ln_gt_zero)
    moreover have "0 \<le> ln (1 + CPY r)" using assms(2) by simp
    ultimately show ?thesis using C True assms(2)
      by (auto simp: citation_component_def log1p_def py_div_def split: if_splits)
  next
    case False
    with C show ?thesis by (auto simp: citation_component_def split: if_splits)
  qed
  then have "0 \<le> weighted_sum C (1 / 2) (if is_OA r then 1 else 0)
        (if Is_Retracted r then 0 else 1) (if Funder_present r then 1 else 0)
        (Author_affil_completeness r) 0 * 100"
    using assms(3) by (simp add: weighted_sum_def weight_vals)
  then show ?thesis unfolding x by (rule py_round_nonneg)
qed

text \<open>What a record of the scored batch is: a row of the loop with the score of that row.\<close>

lemma analyze_member:
  assumes "analyze cfg stubs = Inr out" "s \<in> set out"
  shows "\<exists>rows art rs. process_all cfg stubs = Inr rows \<and> base s \<in> set rows
    \<and> process_article cfg art rs = Inr (base s)
    \<and> rim_of_row (max_cpy rows) (base s) = Inr (RIM s)"
proof -
  from assms(1) obtain rows rims where
    rows: "process_all cfg stubs = Inr rows"
    and rims: "rim_column (max_cpy rows) rows = Inr rims"
    and out: "out = map2 (\<lambda>r x. \<lparr>base = r, RIM = x, Risk_Factor = risk_factor x\<rparr>) rows rims"
    by (auto simp: analyze_def score_rows_def py_bind_eq_Inr)
  from assms(2) out obtain r x where
    z: "(r, x) \<in> set (zip rows rims)" and s: "s = \<lparr>base = r, RIM = x, Risk_Factor = risk_factor x\<rparr>"
    by auto
  from z have m: "r \<in> set rows" by (rule set_zip_leftD)
  from process_all_member [OF rows m] obtain art rs where
    p: "process_article cfg art rs = Inr r" by blast
  have x: "rim_of_row (max_cpy rows) r = Inr x" using rims z by (rule rim_column_zip)
  from rows m p x s show ?thesis by auto
qed

text \<open>
  Claim C10. Every record of a batch that is scored has a RIM of at most 85: the journal
  sub-score is the constant \<open>0.5\<close> and the provenance sub-score the constant \<open>0\<close>, the citation
  component is at most 1 because no record's CPY exceeds the batch maximum, and the
  affiliation completeness the merger computes is at most 1.
\<close>

theorem rim_at_most_85:
  assumes "analyze cfg stubs = Inr out"
  shows "\<forall>s \<in> set out. RIM s \<le> 85"
proof
  fix s assume "s \<in> set out"
  from analyze_member [OF assms this] obtain rows art rs where
    m: "base s \<in> set rows"
    and p: "process_article cfg art rs = Inr (base s)"
    and x: "rim_of_row (max_cpy rows) (base s) = Inr (RIM s)"
    by blast
  have "Author_affil_completeness (base s) \<le> 1"
    using process_article_completeness [OF p] by simp
  with x max_cpy_upper [OF m] show "RIM s \<le> 85" by (rule rim_of_row_le_85)
qed

theorem rim_at_most_85_witness:
  "analyze example_config [(scenario_b_stub, scenario_b_answers)]
     = Inr [\<lparr>base = scenario_b_row, RIM = 85, Risk_Factor = 15 / 100\<rparr>]
   \<and> RIM \<lparr>base = scenario_b_row, RIM = 85, Risk_Factor = 15 / 100\<rparr> \<le> 85"
  using rim_at_most_85 [OF scenario_b_analyze] scenario_b_analyze
  by simp

text \<open>
  The range of the score over the whole batch: a record whose citation count is not negative
  has every sub-score in \<open>[0, 1]\<close>, so its RIM lies in \<open>[0, 100]\<close>.
\<close>

lemma batch_rim_in_range:
  assumes "analyze cfg stubs = Inr out" "s \<in> set out" "0 \<le> Citations (base s)"
  shows "0 \<le> RIM s \<and> RIM s \<le> 100"
proof -
  from analyze_member [OF assms(1,2)] obtain rows art rs where
    m: "base s \<in> set rows"
    and p: "process_article cfg art rs = Inr (base s)"
    and x: "rim_of_row (max_cpy rows) (base s) = Inr (RIM s)"
    by blast
  have c: "0 \<le> CPY (base s)" using p assms(3) by (rule process_article_cpy_nonneg)
  have o: "0 \<le> Author_affil_completeness (base s)" "Author_affil_completeness (base s) \<le> 1"
    using process_article_completeness [OF p] by simp_all
  have "0 \<le> RIM s" using x c o(1) by (rule rim_of_row_nonneg)
  moreover have "RIM s \<le> 85" using x max_cpy_upper [OF m] o(2) by (rule rim_of_row_le_85)
  ultimately show ?thesis by simp
qed

end
